theory Spec2Isabelle
  imports Main "HOL-Library.Word" "HOL-Library.AList"
begin

section \<open>nanogui/glutil.h: shader attribute buffers and framebuffers\<close>

text \<open>
  A shallow embedding of \<^verbatim>\<open>src/include/nanogui/glutil.h\<close>. The header holds the bodies
  of the template members of \<^verbatim>\<open>GLShader\<close> (\<^verbatim>\<open>uploadAttrib\<close>, \<^verbatim>\<open>downloadAttrib\<close>,
  \<^verbatim>\<open>uploadIndices\<close>), of the registry queries (\<^verbatim>\<open>hasAttrib\<close>, \<^verbatim>\<open>attribVersion\<close>,
  \<^verbatim>\<open>resetAttribVersion\<close>, \<^verbatim>\<open>bufferSize\<close>) and of \<^verbatim>\<open>GLFramebuffer::ready\<close>. The
  members that are only declared there (the protected \<^verbatim>\<open>uploadAttrib\<close> and
  \<^verbatim>\<open>downloadAttrib\<close>, \<^verbatim>\<open>invalidateAttribs\<close>, \<^verbatim>\<open>freeAttrib\<close>, \<^verbatim>\<open>shareAttrib\<close>,
  \<^verbatim>\<open>GLFramebuffer::init\<close> and \<^verbatim>\<open>free\<close>) are modelled from the specification; each
  such definition says so.
\<close>

subsection \<open>Machine types\<close>

type_synonym GLuint = "32 word"
type_synonym uint32_t = "32 word"
type_synonym uint8_t = "8 word"
type_synonym size_t = "64 word"

text \<open>
  A C++ \<^verbatim>\<open>int\<close> that is only stored and compared (the version tag) is an \<^typ>\<open>int\<close>;
  the \<^verbatim>\<open>int dim\<close> argument is kept as its 32-bit pattern, which is what the conversion
  to the \<^verbatim>\<open>GLuint dim\<close> field preserves.
\<close>

subsection \<open>The OpenGL context\<close>

text \<open>
  The part of the OpenGL state the attribute protocol touches: the data store of every
  buffer object by name, the number of data transfers made so far (the transfer-count
  hook of the specification) and the number of object names issued so far.
\<close>

record GLContext =
  storage :: "GLuint \<rightharpoonup> uint8_t list"
  transfers :: nat
  issued :: nat

definition glGen :: "GLContext \<Rightarrow> GLuint \<times> GLContext" where
  \<comment> \<open>\<^verbatim>\<open>glGenBuffers(1, &id)\<close> and its siblings: a non-zero object name.\<close>
  "glGen gl = (1 + word_of_nat (issued gl mod 4294967295), gl\<lparr>issued := Suc (issued gl)\<rparr>)"

definition glBufferData :: "GLContext \<Rightarrow> GLuint \<Rightarrow> nat \<Rightarrow> uint8_t list \<Rightarrow> GLContext" where
  \<comment> \<open>(re)creates the data store of buffer \<open>b\<close> with \<open>n\<close> bytes read from \<open>data\<close>: one transfer.\<close>
  "glBufferData gl b n data =
     gl\<lparr>storage := (storage gl)(b \<mapsto> take n data), transfers := Suc (transfers gl)\<rparr>"

definition glGetBufferSubData :: "GLContext \<Rightarrow> GLuint \<Rightarrow> nat \<Rightarrow> uint8_t list \<Rightarrow> uint8_t list" where
  \<comment> \<open>reads the first \<open>n\<close> bytes of the store of \<open>b\<close> over the front of \<open>data\<close>; a read past
      the end of the store (or of no store) is rejected by OpenGL and writes nothing.\<close>
  "glGetBufferSubData gl b n data =
     (case storage gl b of
        None \<Rightarrow> data
      | Some bytes \<Rightarrow> if n \<le> length bytes then take n bytes @ drop n data else data)"

definition glDeleteBuffers :: "GLContext \<Rightarrow> GLuint \<Rightarrow> GLContext" where
  "glDeleteBuffers gl b = gl\<lparr>storage := (storage gl)(b := None)\<rparr>"

subsection \<open>Element types (\<^verbatim>\<open>type_traits\<close>, lines 23-32)\<close>

datatype Scalar = uint32 | int32 | uint16 | int16 | uint8 | int8 | double | float | half

definition GL_BYTE :: GLuint where "GL_BYTE = 0x1400"
definition GL_UNSIGNED_BYTE :: GLuint where "GL_UNSIGNED_BYTE = 0x1401"
definition GL_SHORT :: GLuint where "GL_SHORT = 0x1402"
definition GL_UNSIGNED_SHORT :: GLuint where "GL_UNSIGNED_SHORT = 0x1403"
definition GL_INT :: GLuint where "GL_INT = 0x1404"
definition GL_UNSIGNED_INT :: GLuint where "GL_UNSIGNED_INT = 0x1405"
definition GL_FLOAT :: GLuint where "GL_FLOAT = 0x1406"
definition GL_DOUBLE :: GLuint where "GL_DOUBLE = 0x140A"
definition GL_HALF_FLOAT :: GLuint where "GL_HALF_FLOAT = 0x140B"

fun type_traits_type :: "Scalar \<Rightarrow> GLuint" where
  "type_traits_type uint32 = GL_UNSIGNED_INT"
| "type_traits_type int32 = GL_INT"
| "type_traits_type uint16 = GL_UNSIGNED_SHORT"
| "type_traits_type int16 = GL_SHORT"
| "type_traits_type uint8 = GL_UNSIGNED_BYTE"
| "type_traits_type int8 = GL_BYTE"
| "type_traits_type double = GL_DOUBLE"
| "type_traits_type float = GL_FLOAT"
| "type_traits_type half = GL_HALF_FLOAT"

fun type_traits_integral :: "Scalar \<Rightarrow> bool" where
  "type_traits_integral uint32 = True"
| "type_traits_integral int32 = True"
| "type_traits_integral uint16 = True"
| "type_traits_integral int16 = True"
| "type_traits_integral uint8 = True"
| "type_traits_integral int8 = True"
| "type_traits_integral double = False"
| "type_traits_integral float = False"
| "type_traits_integral half = False"

fun sizeof :: "Scalar \<Rightarrow> uint32_t" where
  "sizeof uint32 = 4"
| "sizeof int32 = 4"
| "sizeof uint16 = 2"
| "sizeof int16 = 2"
| "sizeof uint8 = 1"
| "sizeof int8 = 1"
| "sizeof double = 8"
| "sizeof float = 4"
| "sizeof half = 2"

subsection \<open>Matrices\<close>

text \<open>
  The \<^verbatim>\<open>Matrix\<close> template argument: a dense matrix of run-time shape with the members
  the header uses (\<^verbatim>\<open>Scalar\<close>, \<^verbatim>\<open>size()\<close>, \<^verbatim>\<open>rows()\<close>, \<^verbatim>\<open>data()\<close>, \<^verbatim>\<open>resize\<close>). The
  header only ever sees the coefficients through \<^verbatim>\<open>(uint8_t *) M.data()\<close>, so they are
  kept as the bytes of the coefficient array; coefficients of any element type,
  floating point included, are moved as bytes and never computed with.
\<close>

record Matrix =
  scalar :: Scalar
  rows :: nat
  cols :: nat
  data :: "uint8_t list"

definition size_M :: "Matrix \<Rightarrow> nat" where
  "size_M M = rows M * cols M"

definition wf_Matrix :: "Matrix \<Rightarrow> bool" where
  \<comment> \<open>the coefficient array has \<^verbatim>\<open>size() * sizeof(Scalar)\<close> bytes\<close>
  "wf_Matrix M = (length (data M) = size_M M * unat (sizeof (scalar M)))"

definition resize :: "Matrix \<Rightarrow> nat \<Rightarrow> nat \<Rightarrow> Matrix" where
  \<comment> \<open>\<^verbatim>\<open>M.resize(r, c)\<close>: the array is kept when the number of coefficients is, and is a new
      one otherwise (its content is indeterminate in C++; zero bytes here).\<close>
  "resize M r c =
     M\<lparr>rows := r, cols := c,
       data := (if r * c = size_M M then data M
                else replicate (r * c * unat (sizeof (scalar M))) 0)\<rparr>"

subsection \<open>The shader and its buffer registry (lines 186-201)\<close>

record Buffer =
  id_buf :: GLuint
  glType :: GLuint
  dim :: GLuint
  compSize :: GLuint
  size_buf :: GLuint
  version :: int

text \<open>
  \<^verbatim>\<open>std::map<std::string, Buffer>\<close> is an association list read with \<^const>\<open>map_of\<close> and
  written with \<^const>\<open>AList.update\<close> and \<^const>\<open>AList.delete\<close>.
\<close>

record GLShader =
  mName :: string
  mVertexShader :: GLuint
  mFragmentShader :: GLuint
  mGeometryShader :: GLuint
  mProgramShader :: GLuint
  mVertexArrayObject :: GLuint
  mBufferObjects :: "(string \<times> Buffer) list"
  mDefinitions :: "(string \<times> string) list"

definition GLShader_new :: "string \<Rightarrow> GLShader" where
  \<comment> \<open>the constructor, lines 41-43; \<^verbatim>\<open>mName\<close> is what \<^verbatim>\<open>init\<close> sets later\<close>
  "GLShader_new n =
     \<lparr>mName = n, mVertexShader = 0, mFragmentShader = 0, mGeometryShader = 0,
      mProgramShader = 0, mVertexArrayObject = 0, mBufferObjects = [], mDefinitions = []\<rparr>"

datatype error = runtime_error string | division_by_zero

definition hasAttrib :: "GLShader \<Rightarrow> string \<Rightarrow> bool" where
  "hasAttrib sh name =
     (case map_of (mBufferObjects sh) name of None \<Rightarrow> False | Some _ \<Rightarrow> True)"

definition attribVersion :: "GLShader \<Rightarrow> string \<Rightarrow> int" where
  "attribVersion sh name =
     (case map_of (mBufferObjects sh) name of None \<Rightarrow> - 1 | Some buf \<Rightarrow> version buf)"

definition resetAttribVersion :: "GLShader \<Rightarrow> string \<Rightarrow> GLShader" where
  "resetAttribVersion sh name =
     (case map_of (mBufferObjects sh) name of
        None \<Rightarrow> sh
      | Some buf \<Rightarrow>
          sh\<lparr>mBufferObjects := AList.update name (buf\<lparr>version := - 1\<rparr>) (mBufferObjects sh)\<rparr>)"

definition bufferSize :: "GLShader \<Rightarrow> size_t" where
  \<comment> \<open>lines 173-178: \<^verbatim>\<open>size += buf.second.size\<close> over the registry\<close>
  "bufferSize sh = fold (\<lambda>buf size. size + ucast (size_buf (snd buf))) (mBufferObjects sh) 0"

subsection \<open>Members declared in the header and defined elsewhere\<close>

definition notFound :: "GLShader \<Rightarrow> string \<Rightarrow> error" where
  \<comment> \<open>the exception of line 91\<close>
  "notFound sh name =
     runtime_error (''downloadAttrib('' @ mName sh @ '', '' @ name @ '') : buffer not found!'')"

definition uploadAttrib ::
  "GLContext \<Rightarrow> GLShader \<Rightarrow> string \<Rightarrow> uint32_t \<Rightarrow> 32 word \<Rightarrow> uint32_t \<Rightarrow> GLuint \<Rightarrow> bool \<Rightarrow>
   uint8_t list \<Rightarrow> int \<Rightarrow> GLContext \<times> GLShader" where
  \<comment> \<open>Modelled from the spec: the body of the protected \<^verbatim>\<open>uploadAttrib\<close> (declared at
      lines 180-182) is missing. Spec 4.1: with no Buffer under \<open>name\<close>, create GPU storage,
      transfer the data and store the version; with a Buffer, re-transfer (resizing the
      storage) and update the version when \<open>version = -1\<close> or it differs from the stored
      one, and skip the transfer otherwise. The byte size is element count times
      component size. What a re-transfer does to the stored \<open>dim\<close> and type is left open
      by the spec (section 9): the model leaves them as they are.\<close>
  "uploadAttrib gl sh name size' dim' compSize' glType' integral data' version' =
     (case map_of (mBufferObjects sh) name of
        None \<Rightarrow>
          (let (bufferID, gl1) = glGen gl;
               buffer = \<lparr>id_buf = bufferID, glType = glType', dim = dim', compSize = compSize',
                         size_buf = size', version = version'\<rparr>
           in (glBufferData gl1 bufferID (unat size' * unat compSize') data',
               sh\<lparr>mBufferObjects := AList.update name buffer (mBufferObjects sh)\<rparr>))
      | Some buf \<Rightarrow>
          if version' = - 1 \<or> version' \<noteq> version buf then
            (glBufferData gl (id_buf buf) (unat size' * unat compSize') data',
             sh\<lparr>mBufferObjects :=
                  AList.update name (buf\<lparr>compSize := compSize', size_buf := size', version := version'\<rparr>)
                    (mBufferObjects sh)\<rparr>)
          else (gl, sh))"

definition downloadAttrib ::
  "GLContext \<Rightarrow> GLShader \<Rightarrow> string \<Rightarrow> uint32_t \<Rightarrow> 32 word \<Rightarrow> uint32_t \<Rightarrow> GLuint \<Rightarrow>
   uint8_t list \<Rightarrow> (error + uint8_t list) \<times> GLShader" where
  \<comment> \<open>Modelled from the spec: the body of the protected \<^verbatim>\<open>downloadAttrib\<close> (declared at
      lines 183-184) is missing. Spec 4.1: fails with a not-found condition when no Buffer
      is registered under \<open>name\<close>; otherwise reads GPU storage back into the caller's
      storage, here \<open>size * compSize\<close> bytes of it.\<close>
  "downloadAttrib gl sh name size' dim' compSize' glType' data' =
     (case map_of (mBufferObjects sh) name of
        None \<Rightarrow> (Inl (notFound sh name), sh)
      | Some buf \<Rightarrow>
          (Inr (glGetBufferSubData gl (id_buf buf) (unat size' * unat compSize') data'), sh))"

definition invalidateAttribs :: "GLShader \<Rightarrow> GLShader" where
  \<comment> \<open>Modelled from the spec: the body of \<^verbatim>\<open>invalidateAttribs\<close> (declared at line 105) is
      missing. Spec 4.1: resets every registered Buffer's version to \<open>-1\<close>.\<close>
  "invalidateAttribs sh =
     sh\<lparr>mBufferObjects := map (\<lambda>(k, buf). (k, buf\<lparr>version := - 1\<rparr>)) (mBufferObjects sh)\<rparr>"

definition freeAttrib :: "GLContext \<Rightarrow> GLShader \<Rightarrow> string \<Rightarrow> GLContext \<times> GLShader" where
  \<comment> \<open>Modelled from the spec: the body of \<^verbatim>\<open>freeAttrib\<close> (declared at line 108) is missing.
      Spec 4.1: deletes one Buffer's GPU storage and removes it from the registry; no-op
      if absent.\<close>
  "freeAttrib gl sh name =
     (case map_of (mBufferObjects sh) name of
        None \<Rightarrow> (gl, sh)
      | Some buf \<Rightarrow>
          (glDeleteBuffers gl (id_buf buf),
           sh\<lparr>mBufferObjects := AList.delete name (mBufferObjects sh)\<rparr>))"


subsection \<open>The template members (lines 75-102)\<close>

definition uploadAttrib_Matrix ::
  "GLContext \<Rightarrow> GLShader \<Rightarrow> string \<Rightarrow> Matrix \<Rightarrow> int \<Rightarrow> GLContext \<times> GLShader" where
  "uploadAttrib_Matrix gl sh name M version' =
     (let compSize' = sizeof (scalar M);
          glType' = type_traits_type (scalar M);
          integral = type_traits_integral (scalar M)
      in uploadAttrib gl sh name (word_of_nat (size_M M)) (word_of_nat (rows M)) compSize'
           glType' integral (data M) version')"

definition downloadAttrib_Matrix ::
  "GLContext \<Rightarrow> GLShader \<Rightarrow> string \<Rightarrow> Matrix \<Rightarrow> (error + Matrix) \<times> GLShader" where
  \<comment> \<open>\<^verbatim>\<open>buf.size / buf.dim\<close> at line 94 is an unsigned division: with \<^verbatim>\<open>buf.dim == 0\<close> it has
      no value in C++ and the call does not return a matrix.\<close>
  "downloadAttrib_Matrix gl sh name M =
     (let compSize' = sizeof (scalar M);
          glType' = type_traits_type (scalar M)
      in case map_of (mBufferObjects sh) name of
           None \<Rightarrow> (Inl (notFound sh name), sh)
         | Some buf \<Rightarrow>
             if dim buf = 0 then (Inl division_by_zero, sh)
             else
               (let M1 = resize M (unat (dim buf)) (unat (size_buf buf div dim buf))
                in case downloadAttrib gl sh name (word_of_nat (size_M M1))
                          (word_of_nat (rows M1)) compSize' glType' (data M1) of
                     (Inl e, sh1) \<Rightarrow> (Inl e, sh1)
                   | (Inr bytes, sh1) \<Rightarrow> (Inr (M1\<lparr>data := bytes\<rparr>), sh1)))"

definition uploadIndices :: "GLContext \<Rightarrow> GLShader \<Rightarrow> Matrix \<Rightarrow> GLContext \<times> GLShader" where
  \<comment> \<open>line 101; the version argument takes its default, \<open>-1\<close>\<close>
  "uploadIndices gl sh M = uploadAttrib_Matrix gl sh ''indices'' M (- 1)"

subsection \<open>The framebuffer (lines 205-233)\<close>

record GLFramebuffer =
  mFramebuffer :: GLuint
  mDepth :: GLuint
  mColor :: GLuint
  mSize :: "int \<times> int"
  mSamples :: int

definition GLFramebuffer_new :: "int \<times> int \<Rightarrow> GLFramebuffer" where
  \<comment> \<open>the constructor, line 207; \<^verbatim>\<open>mSize\<close> is default-constructed, to \<open>s0\<close>\<close>
  "GLFramebuffer_new s0 = \<lparr>mFramebuffer = 0, mDepth = 0, mColor = 0, mSize = s0, mSamples = 0\<rparr>"

definition ready :: "GLFramebuffer \<Rightarrow> bool" where
  "ready fb = (mFramebuffer fb \<noteq> 0)"

definition samples :: "GLFramebuffer \<Rightarrow> int" where
  "samples fb = mSamples fb"

definition init_fb :: "GLContext \<Rightarrow> GLFramebuffer \<Rightarrow> int \<times> int \<Rightarrow> int \<Rightarrow> GLContext \<times> GLFramebuffer" where
  \<comment> \<open>Modelled from the spec: the body of \<^verbatim>\<open>GLFramebuffer::init\<close> (declared at line 210) is
      missing. Spec 3 and 4.2: allocates the colour and depth attachments and the
      framebuffer at the given size and sample count.\<close>
  "init_fb gl fb size' nSamples =
     (let (color, gl1) = glGen gl;
          (depth, gl2) = glGen gl1;
          (framebuffer, gl3) = glGen gl2
      in (gl3, fb\<lparr>mFramebuffer := framebuffer, mDepth := depth, mColor := color,
                  mSize := size', mSamples := nSamples\<rparr>))"

definition free_fb :: "GLFramebuffer \<Rightarrow> GLFramebuffer" where
  \<comment> \<open>Modelled from the spec: the body of \<^verbatim>\<open>GLFramebuffer::free\<close> (declared at line 213) is
      missing. Spec 3 and 4.2: releases all attachments; the framebuffer is fully torn
      down and \<^verbatim>\<open>ready()\<close> is false until the next \<^verbatim>\<open>init\<close>.\<close>
  "free_fb fb = fb\<lparr>mFramebuffer := 0, mDepth := 0, mColor := 0\<rparr>"

datatype fb_call = Bind | Release | Blit

fun fb_use :: "fb_call \<Rightarrow> GLFramebuffer \<Rightarrow> GLFramebuffer" where
  \<comment> \<open>Modelled from the spec: the bodies of \<^verbatim>\<open>bind\<close>, \<^verbatim>\<open>release\<close> and \<^verbatim>\<open>blit\<close> (declared at
      lines 216-222) are missing. Spec 4.2: they select, deselect and copy the render
      target; none of them allocates or releases it.\<close>
  "fb_use Bind fb = fb"
| "fb_use Release fb = fb"
| "fb_use Blit fb = fb"

subsection \<open>Concrete states\<close>

definition no_buffers :: GLContext where
  \<comment> \<open>a context in which nothing has been created or transferred yet\<close>
  "no_buffers = \<lparr>storage = Map.empty, transfers = 0, issued = 0\<rparr>"

definition positions :: Matrix where
  \<comment> \<open>a 3 x 4 matrix of \<^verbatim>\<open>float\<close>: 48 bytes\<close>
  "positions = \<lparr>scalar = float, rows = 3, cols = 4, data = map word_of_nat [0 ..< 48]\<rparr>"

definition moved :: Matrix where
  \<comment> \<open>another 3 x 4 matrix of \<^verbatim>\<open>float\<close>\<close>
  "moved = \<lparr>scalar = float, rows = 3, cols = 4, data = replicate 48 255\<rparr>"

definition default_float :: Matrix where
  \<comment> \<open>a default-constructed dynamic matrix of \<^verbatim>\<open>float\<close>: 0 x 0\<close>
  "default_float = \<lparr>scalar = float, rows = 0, cols = 0, data = []\<rparr>"

definition default_indices :: Matrix where
  \<comment> \<open>a default-constructed dynamic matrix of \<^verbatim>\<open>uint32_t\<close>: 0 x 0\<close>
  "default_indices = \<lparr>scalar = uint32, rows = 0, cols = 0, data = []\<rparr>"

definition tall :: Matrix where
  \<comment> \<open>a matrix of \<^verbatim>\<open>float\<close> with \<open>2^32 + 1\<close> rows and no column, hence no coefficient\<close>
  "tall = \<lparr>scalar = float, rows = 4294967297, cols = 0, data = []\<rparr>"

definition triangle :: Matrix where
  \<comment> \<open>a 3 x 1 matrix of \<^verbatim>\<open>uint32_t\<close> indices 0, 1, 2 (little-endian bytes)\<close>
  "triangle = \<lparr>scalar = uint32, rows = 3, cols = 1, data = [0, 0, 0, 0, 1, 0, 0, 0, 2, 0, 0, 0]\<rparr>"

definition uploaded :: "GLContext \<times> GLShader" where
  \<comment> \<open>two bytes uploaded under \<^verbatim>\<open>"position"\<close> with version 3, into a new shader\<close>
  "uploaded =
     uploadAttrib no_buffers (GLShader_new ''s'') ''position'' 2 1 1 GL_UNSIGNED_BYTE True [7, 9] 3"





definition default_double :: Matrix where
  \<comment> \<open>a default-constructed dynamic matrix of \<^verbatim>\<open>double\<close>: 0 x 0\<close>
  "default_double = \<lparr>scalar = double, rows = 0, cols = 0, data = []\<rparr>"


definition positioned :: "GLContext \<times> GLShader" where
  \<comment> \<open>\<^const>\<open>positions\<close> uploaded under \<^verbatim>\<open>"position"\<close> into a new shader\<close>
  "positioned = uploadAttrib_Matrix no_buffers (GLShader_new ''s'') ''position'' positions (- 1)"

section \<open>Properties\<close>

subsection \<open>Auxiliary facts\<close>

lemma glGen_nonzero: "fst (glGen gl) \<noteq> 0"
proof -
  have "issued gl mod 4294967295 < 4294967295" by simp
  then have "Suc (issued gl mod 4294967295) < 2 ^ 32" by simp
  then have "unat (word_of_nat (Suc (issued gl mod 4294967295)) :: 32 word)
      = Suc (issued gl mod 4294967295)"
    by (simp add: unat_of_nat del: of_nat_Suc)
  then have "(word_of_nat (Suc (issued gl mod 4294967295)) :: 32 word) \<noteq> 0"
    by (metis Zero_not_Suc unat_0)
  then show ?thesis by (simp add: glGen_def)
qed

lemma uploaded_eval:
  "uploaded =
     (\<lparr>storage = [1 \<mapsto> [7, 9]], transfers = 1, issued = 1\<rparr>,
      (GLShader_new ''s'')\<lparr>mBufferObjects :=
         [(''position'', \<lparr>id_buf = 1, glType = GL_UNSIGNED_BYTE, dim = 1, compSize = 1,
                           size_buf = 2, version = 3\<rparr>)]\<rparr>)"
  by (simp add: uploaded_def uploadAttrib_def GLShader_new_def no_buffers_def glGen_def
      glBufferData_def)

lemma fold_add_sizes:
  "fold (\<lambda>buf size. size + f buf) bs (a :: size_t) = a + sum_list (map f bs)"
  by (induction bs arbitrary: a) (simp_all add: add.assoc)

lemma bufferSize_sum_list:
  "bufferSize sh = sum_list (map (\<lambda>buf. ucast (size_buf (snd buf))) (mBufferObjects sh))"
  by (simp add: bufferSize_def fold_add_sizes)

lemma upload_Matrix_post:
  assumes wf: "wf_Matrix M" and sz: "size_M M < 2 ^ 32"
    and old: "\<forall>buf. map_of (mBufferObjects sh) name = Some buf \<longrightarrow> dim buf = word_of_nat (rows M)"
  shows "\<exists>b. map_of (mBufferObjects (snd (uploadAttrib_Matrix gl sh name M (- 1)))) name = Some b \<and>
      dim b = word_of_nat (rows M) \<and> size_buf b = word_of_nat (size_M M) \<and>
      storage (fst (uploadAttrib_Matrix gl sh name M (- 1))) (id_buf b) = Some (data M)"
proof -
  have u: "unat (word_of_nat (size_M M) :: 32 word) = size_M M"
    using sz by (simp add: unat_of_nat)
  have t: "take (unat (word_of_nat (size_M M) :: 32 word) * unat (sizeof (scalar M))) (data M) = data M"
    using wf by (simp add: u wf_Matrix_def)
  show ?thesis
  proof (cases "map_of (mBufferObjects sh) name")
    case None
    then show ?thesis
      using t by (simp add: uploadAttrib_Matrix_def uploadAttrib_def glBufferData_def update_conv'
          split: prod.splits)
  next
    case (Some buf)
    then show ?thesis
      using t old by (simp add: uploadAttrib_Matrix_def uploadAttrib_def glBufferData_def update_conv')
  qed
qed

lemma download_Matrix_stored:
  assumes reg: "map_of (mBufferObjects sh) name = Some b"
    and d: "dim b = word_of_nat (rows M)" and s: "size_buf b = word_of_nat (size_M M)"
    and st: "storage gl (id_buf b) = Some (data M)"
    and wf: "wf_Matrix M" and wf0: "wf_Matrix M0" and ty: "scalar M0 = scalar M"
    and r0: "0 < rows M" and r: "rows M < 2 ^ 32" and sz: "size_M M < 2 ^ 32"
  shows "downloadAttrib_Matrix gl sh name M0 = (Inr M, sh)"
proof -
  have ud: "unat (dim b) = rows M"
    using r by (simp add: d unat_of_nat)
  have us: "unat (size_buf b) = size_M M"
    using sz by (simp add: s unat_of_nat)
  have nz: "dim b \<noteq> 0"
    using ud r0 by (metis less_numeral_extra(3) unat_0)
  have c: "unat (size_buf b div dim b) = cols M"
    using r0 by (simp add: unat_div ud us size_M_def)
  define M1 where "M1 = resize M0 (rows M) (cols M)"
  have sM1: "size_M M1 = size_M M"
    by (simp add: M1_def resize_def size_M_def)
  have lM1: "length (data M1) = length (data M)"
    using wf wf0 ty by (auto simp: M1_def resize_def size_M_def wf_Matrix_def)
  have n: "unat (word_of_nat (size_M M1) :: 32 word) * unat (sizeof (scalar M0)) = length (data M)"
    using sz wf by (simp add: sM1 unat_of_nat wf_Matrix_def ty)
  have g: "glGetBufferSubData gl (id_buf b) (length (data M)) (data M1) = data M"
    by (simp add: glGetBufferSubData_def st lM1)
  have e: "M1\<lparr>data := data M\<rparr> = M"
    using ty by (simp add: M1_def resize_def)
  show ?thesis
    using nz by (simp add: downloadAttrib_Matrix_def downloadAttrib_def reg Let_def c ud
        M1_def [symmetric] n g e)
qed

lemma wf_fixtures:
  "wf_Matrix positions" "wf_Matrix moved" "wf_Matrix default_float" "wf_Matrix triangle"
  "wf_Matrix default_indices"
  by (simp_all add: wf_Matrix_def size_M_def positions_def moved_def default_float_def
      triangle_def default_indices_def)

lemma download_Matrix_registered:
  assumes reg: "map_of (mBufferObjects sh) name = Some buf" and nz: "dim buf \<noteq> 0"
  defines "r \<equiv> unat (dim buf)" and "c \<equiv> unat (size_buf buf) div unat (dim buf)"
  shows "downloadAttrib_Matrix gl sh name M =
     (Inr ((resize M r c)\<lparr>data := glGetBufferSubData gl (id_buf buf)
              (r * c * unat (sizeof (scalar M))) (data (resize M r c))\<rparr>), sh)"
proof -
  have "r * c \<le> unat (size_buf buf)"
    by (simp add: r_def c_def)
  also have "\<dots> < 2 ^ 32"
    using unsigned_less [of "size_buf buf"] by simp
  finally have n: "unat (word_of_nat (size_M (resize M r c)) :: 32 word) = r * c"
    by (simp add: unat_of_nat resize_def size_M_def del: of_nat_mult)
  have q: "unat (size_buf buf div dim buf) = c"
    by (simp add: unat_div c_def)
  show ?thesis
    using nz by (simp add: downloadAttrib_Matrix_def downloadAttrib_def reg Let_def q n
        r_def [symmetric])
qed



lemma download_Matrix_rows:
  assumes "fst (downloadAttrib_Matrix gl sh name M0) = Inr M'"
  shows "0 < rows M' \<and> rows M' < 2 ^ 32"
proof (cases "map_of (mBufferObjects sh) name")
  case None
  with assms show ?thesis
    by (simp add: downloadAttrib_Matrix_def)
next
  case (Some buf)
  show ?thesis
  proof (cases "dim buf = 0")
    case True
    with assms Some show ?thesis
      by (simp add: downloadAttrib_Matrix_def)
  next
    case False
    then have "0 < unat (dim buf)"
      by (simp add: unat_gt_0)
    moreover have "unat (dim buf) < 2 ^ 32"
      using unsigned_less [of "dim buf"] by simp
    moreover have "rows M' = unat (dim buf)"
      using assms by (auto simp: download_Matrix_registered [OF Some False] resize_def)
    ultimately show ?thesis
      by simp
  qed
qed

subsection \<open>The versioning protocol of \<^verbatim>\<open>uploadAttrib\<close>\<close>

text \<open>
  C1. For every call \<^verbatim>\<open>uploadAttrib(name, ..., data, version)\<close>: if no Buffer is registered
  under \<open>name\<close>, GPU storage is created (under a new, non-zero handle), the data is
  transferred and the version is stored; if a Buffer exists and the version is \<open>-1\<close> or
  differs from the stored one, the data is transferred again into the same handle, whose
  store takes the new byte size, and the stored version is updated; if a Buffer exists and
  the version equals the stored one and is not \<open>-1\<close>, nothing is transferred and neither
  the context nor the shader changes.
\<close>

theorem uploadAttrib_protocol:
  "(map_of (mBufferObjects sh) name = None \<longrightarrow>
      (\<exists>buf. map_of (mBufferObjects (snd (uploadAttrib gl sh name sz d cs ty i bytes v))) name = Some buf \<and>
         id_buf buf = fst (glGen gl) \<and> id_buf buf \<noteq> 0 \<and> version buf = v \<and>
         storage (fst (uploadAttrib gl sh name sz d cs ty i bytes v)) (id_buf buf)
           = Some (take (unat sz * unat cs) bytes) \<and>
         transfers (fst (uploadAttrib gl sh name sz d cs ty i bytes v)) = Suc (transfers gl))) \<and>
   (\<forall>old. map_of (mBufferObjects sh) name = Some old \<and> (v = - 1 \<or> v \<noteq> version old) \<longrightarrow>
      (\<exists>buf. map_of (mBufferObjects (snd (uploadAttrib gl sh name sz d cs ty i bytes v))) name = Some buf \<and>
         id_buf buf = id_buf old \<and> version buf = v \<and>
         storage (fst (uploadAttrib gl sh name sz d cs ty i bytes v)) (id_buf buf)
           = Some (take (unat sz * unat cs) bytes) \<and>
         transfers (fst (uploadAttrib gl sh name sz d cs ty i bytes v)) = Suc (transfers gl))) \<and>
   (\<forall>old. map_of (mBufferObjects sh) name = Some old \<and> v = version old \<and> v \<noteq> - 1 \<longrightarrow>
      uploadAttrib gl sh name sz d cs ty i bytes v = (gl, sh))"
  using glGen_nonzero [of gl]
  by (auto simp: uploadAttrib_def glBufferData_def update_conv' glGen_def split: prod.splits)

text \<open>
  The three cases at concrete inputs: a first upload with version 3, a second one with
  version 4 and one with version \<open>-1\<close>, which both transfer, and a second one with
  version 3, which does not.
\<close>

theorem uploadAttrib_protocol_witness:
  "map_of (mBufferObjects (GLShader_new ''s'')) ''position'' = None \<and>
   transfers (fst uploaded) = 1 \<and>
   attribVersion (snd uploaded) ''position'' = 3 \<and>
   transfers (fst (uploadAttrib (fst uploaded) (snd uploaded) ''position'' 2 1 1
                     GL_UNSIGNED_BYTE True [8, 8] 4)) = 2 \<and>
   storage (fst (uploadAttrib (fst uploaded) (snd uploaded) ''position'' 2 1 1
                     GL_UNSIGNED_BYTE True [8, 8] (- 1))) 1 = Some [8, 8] \<and>
   uploadAttrib (fst uploaded) (snd uploaded) ''position'' 2 1 1 GL_UNSIGNED_BYTE True [8, 8] 3
     = uploaded"
proof -
  have absent: "map_of (mBufferObjects (GLShader_new ''s'')) ''position'' = None"
    by (simp add: GLShader_new_def)
  have present: "map_of (mBufferObjects (snd uploaded)) ''position''
      = Some \<lparr>id_buf = 1, glType = GL_UNSIGNED_BYTE, dim = 1, compSize = 1, size_buf = 2, version = 3\<rparr>"
    by (simp add: uploaded_eval)
  have t: "transfers (fst uploaded) = 1" "transfers no_buffers = 0"
    by (simp_all add: uploaded_eval no_buffers_def)
  show ?thesis
    using absent present t
      uploadAttrib_protocol [of "GLShader_new ''s''" "''position''" no_buffers 2 1 1
        GL_UNSIGNED_BYTE True "[7, 9]" 3]
      uploadAttrib_protocol [of "snd uploaded" "''position''" "fst uploaded" 2 1 1
        GL_UNSIGNED_BYTE True "[8, 8]" 4]
      uploadAttrib_protocol [of "snd uploaded" "''position''" "fst uploaded" 2 1 1
        GL_UNSIGNED_BYTE True "[8, 8]" "- 1"]
      uploadAttrib_protocol [of "snd uploaded" "''position''" "fst uploaded" 2 1 1
        GL_UNSIGNED_BYTE True "[8, 8]" 3]
    by (auto simp: attribVersion_def uploaded_def [symmetric])
qed

subsection \<open>Invalidation\<close>

text \<open>
  C2. After \<^verbatim>\<open>invalidateAttribs()\<close> every Buffer of the registry has version \<open>-1\<close>, so
  the next \<^verbatim>\<open>uploadAttrib\<close> for any registered name transfers the data, whatever version
  the caller supplies, the one stored before included.
\<close>

theorem invalidateAttribs_forces_transfer:
  "(\<forall>e \<in> set (mBufferObjects (invalidateAttribs sh)). version (snd e) = - 1) \<and>
   (\<forall>buf. map_of (mBufferObjects sh) name = Some buf \<longrightarrow>
      map_of (mBufferObjects (invalidateAttribs sh)) name = Some (buf\<lparr>version := - 1\<rparr>) \<and>
      attribVersion (invalidateAttribs sh) name = - 1 \<and>
      transfers (fst (uploadAttrib gl (invalidateAttribs sh) name sz d cs ty i bytes v))
        = Suc (transfers gl) \<and>
      storage (fst (uploadAttrib gl (invalidateAttribs sh) name sz d cs ty i bytes v)) (id_buf buf)
        = Some (take (unat sz * unat cs) bytes))"
  by (auto simp: invalidateAttribs_def attribVersion_def uploadAttrib_def glBufferData_def map_of_map)

text \<open>
  At a concrete input: the version stored before the invalidation is 3, and an upload
  with version 3 afterwards is the second transfer.
\<close>

theorem invalidateAttribs_forces_transfer_witness:
  "attribVersion (snd uploaded) ''position'' = 3 \<and>
   attribVersion (invalidateAttribs (snd uploaded)) ''position'' = - 1 \<and>
   transfers (fst (uploadAttrib (fst uploaded) (invalidateAttribs (snd uploaded)) ''position''
                     2 1 1 GL_UNSIGNED_BYTE True [8, 8] 3)) = 2 \<and>
   storage (fst (uploadAttrib (fst uploaded) (invalidateAttribs (snd uploaded)) ''position''
                     2 1 1 GL_UNSIGNED_BYTE True [8, 8] 3)) 1 = Some [8, 8]"
proof -
  have present: "map_of (mBufferObjects (snd uploaded)) ''position''
      = Some \<lparr>id_buf = 1, glType = GL_UNSIGNED_BYTE, dim = 1, compSize = 1, size_buf = 2, version = 3\<rparr>"
    by (simp add: uploaded_eval)
  have t: "transfers (fst uploaded) = 1"
    by (simp add: uploaded_eval)
  show ?thesis
    using present t
      invalidateAttribs_forces_transfer [where sh = "snd uploaded" and name = "''position''"
        and gl = "fst uploaded" and sz = 2 and d = 1 and cs = 1 and ty = GL_UNSIGNED_BYTE
        and i = True and bytes = "[8, 8]" and v = 3]
    by (simp add: attribVersion_def)
qed

subsection \<open>Sharing a buffer between two shaders\<close>




subsection \<open>Upload followed by download\<close>

text \<open>
  C4 (amended). For every matrix \<open>M\<close> with at least one row, fewer than \<open>2^32\<close> rows and
  fewer than \<open>2^32\<close> coefficients, and a name that is either not registered or registered
  with \<open>dim\<close> equal to the number of rows of \<open>M\<close>: \<^verbatim>\<open>uploadAttrib(name, M)\<close> followed
  immediately by \<^verbatim>\<open>downloadAttrib(name, M')\<close>, for \<open>M'\<close> of the same element type, returns
  normally with \<open>M'\<close> equal to \<open>M\<close>.
\<close>

theorem upload_download_roundtrip:
  assumes "wf_Matrix M" and "wf_Matrix M0" and "scalar M0 = scalar M"
    and "0 < rows M" and "rows M < 2 ^ 32" and "size_M M < 2 ^ 32"
    and "\<forall>buf. map_of (mBufferObjects sh) name = Some buf \<longrightarrow> dim buf = word_of_nat (rows M)"
  shows "downloadAttrib_Matrix (fst (uploadAttrib_Matrix gl sh name M (- 1)))
           (snd (uploadAttrib_Matrix gl sh name M (- 1))) name M0
         = (Inr M, snd (uploadAttrib_Matrix gl sh name M (- 1)))"
proof -
  obtain b where "map_of (mBufferObjects (snd (uploadAttrib_Matrix gl sh name M (- 1)))) name = Some b"
    and "dim b = word_of_nat (rows M)" and "size_buf b = word_of_nat (size_M M)"
    and "storage (fst (uploadAttrib_Matrix gl sh name M (- 1))) (id_buf b) = Some (data M)"
    using upload_Matrix_post [OF assms(1) assms(6) assms(7)] by blast
  then show ?thesis
    using assms by (intro download_Matrix_stored)
qed

text \<open>
  At concrete inputs: a 3 x 4 matrix of \<^verbatim>\<open>float\<close> uploaded under a new name and
  downloaded into a default-constructed matrix, and another 3 x 4 matrix uploaded under
  the same name afterwards and downloaded.
\<close>

theorem upload_download_roundtrip_witness:
  "wf_Matrix positions \<and> wf_Matrix default_float \<and> scalar default_float = scalar positions \<and>
   0 < rows positions \<and> rows positions < 2 ^ 32 \<and> size_M positions < 2 ^ 32 \<and>
   \<not> hasAttrib (GLShader_new ''s'') ''position'' \<and>
   fst (downloadAttrib_Matrix (fst positioned) (snd positioned) ''position'' default_float)
     = Inr positions \<and>
   wf_Matrix moved \<and> rows moved = 3 \<and>
   attribVersion (snd positioned) ''position'' = - 1 \<and>
   fst (downloadAttrib_Matrix
         (fst (uploadAttrib_Matrix (fst positioned) (snd positioned) ''position'' moved (- 1)))
         (snd (uploadAttrib_Matrix (fst positioned) (snd positioned) ''position'' moved (- 1)))
         ''position'' positions) = Inr moved"
proof -
  have h: "scalar default_float = scalar positions" "0 < rows positions"
    "rows positions < 2 ^ 32" "size_M positions < 2 ^ 32"
    by (simp_all add: default_float_def positions_def size_M_def)
  have a: "\<forall>buf. map_of (mBufferObjects (GLShader_new ''s'')) ''position'' = Some buf \<longrightarrow>
      dim buf = word_of_nat (rows positions)"
    by (simp add: GLShader_new_def)
  have n: "\<not> hasAttrib (GLShader_new ''s'') ''position''"
    by (simp add: GLShader_new_def hasAttrib_def)
  have h2: "scalar positions = scalar moved" "0 < rows moved" "rows moved < 2 ^ 32"
    "size_M moved < 2 ^ 32" "rows moved = 3"
    by (simp_all add: moved_def positions_def size_M_def)
  have reg: "map_of (mBufferObjects (snd positioned)) ''position''
      = Some \<lparr>id_buf = 1, glType = GL_FLOAT, dim = 3, compSize = 4, size_buf = 12, version = - 1\<rparr>"
    by (simp add: positioned_def uploadAttrib_Matrix_def uploadAttrib_def GLShader_new_def
        no_buffers_def glGen_def positions_def size_M_def)
  have a2: "\<forall>buf. map_of (mBufferObjects (snd positioned)) ''position'' = Some buf \<longrightarrow>
      dim buf = word_of_nat (rows moved)"
    by (simp add: reg h2(5))
  have v: "attribVersion (snd positioned) ''position'' = - 1"
    by (simp add: attribVersion_def reg)
  show ?thesis
    using h n h2(5) v wf_fixtures(1,2,3)
      upload_download_roundtrip [OF wf_fixtures(1) wf_fixtures(3) h a, where gl = no_buffers]
      upload_download_roundtrip [OF wf_fixtures(2) wf_fixtures(1) h2(1-4) a2,
        where gl = "fst positioned"]
    by (simp add: positioned_def [symmetric])
qed

text \<open>
  Without the restrictions the round trip fails. A default-constructed matrix has no
  rows: the upload stores \<open>dim = 0\<close> and the download divides by it at line 94. A matrix
  with \<open>2^32 + 1\<close> rows and no column is uploaded with \<^verbatim>\<open>(int) M.rows()\<close> equal to 1
  (line 80), and comes back with one row. Whatever was uploaded, the number of rows of a
  downloaded matrix is a non-zero \<^verbatim>\<open>GLuint\<close> (lemma \<open>download_Matrix_rows\<close>).
\<close>

theorem roundtrip_counterexample:
  "wf_Matrix default_float \<and>
   fst (downloadAttrib_Matrix
         (fst (uploadAttrib_Matrix no_buffers (GLShader_new ''s'') ''position'' default_float (- 1)))
         (snd (uploadAttrib_Matrix no_buffers (GLShader_new ''s'') ''position'' default_float (- 1)))
         ''position'' default_float) = Inl division_by_zero \<and>
   wf_Matrix tall \<and>
   fst (downloadAttrib_Matrix
         (fst (uploadAttrib_Matrix no_buffers (GLShader_new ''s'') ''position'' tall (- 1)))
         (snd (uploadAttrib_Matrix no_buffers (GLShader_new ''s'') ''position'' tall (- 1)))
         ''position'' tall) = Inr (tall\<lparr>rows := 1\<rparr>) \<and>
   tall\<lparr>rows := 1\<rparr> \<noteq> tall"
  by (simp add: wf_Matrix_def size_M_def default_float_def tall_def uploadAttrib_Matrix_def
      uploadAttrib_def GLShader_new_def no_buffers_def glGen_def glBufferData_def
      downloadAttrib_Matrix_def downloadAttrib_def glGetBufferSubData_def resize_def)

subsection \<open>\<^verbatim>\<open>bufferSize\<close>\<close>

text \<open>
  C5. The claim: \<^verbatim>\<open>bufferSize()\<close> is the sum, over the registered Buffers, of element
  count times component byte size, in bytes. The code adds the element counts (lemma
  \<open>bufferSize_sum_list\<close>), against its own comment at line 172: after a 3 x 4 matrix of
  \<^verbatim>\<open>float\<close> is uploaded it returns 12, where the byte size is 48.
\<close>

theorem bufferSize_sums_element_counts:
  "bufferSize (snd (uploadAttrib_Matrix no_buffers (GLShader_new ''s'') ''position'' positions (- 1))) = 12 \<and>
   sum_list (map (\<lambda>e. unat (size_buf (snd e)) * unat (compSize (snd e)))
      (mBufferObjects (snd (uploadAttrib_Matrix no_buffers (GLShader_new ''s'') ''position'' positions (- 1))))) = 48"
  by (simp add: bufferSize_def uploadAttrib_Matrix_def uploadAttrib_def GLShader_new_def
      no_buffers_def glGen_def glBufferData_def positions_def size_M_def)

subsection \<open>Downloading\<close>

text \<open>
  C6 (amended). \<^verbatim>\<open>downloadAttrib(name, M)\<close> raises the \<^verbatim>\<open>runtime_error\<close> "buffer not
  found" when, and only when, no Buffer is registered under \<open>name\<close>, and it never changes
  the shader; when a Buffer is registered and its \<open>dim\<close> is not zero, the call returns the
  caller's matrix resized to \<open>dim\<close> rows and \<open>size / dim\<close> columns, after reading
  rows x columns x \<^verbatim>\<open>sizeof(Scalar)\<close> bytes of the Buffer's storage back over it: when
  the storage holds that many bytes the matrix starts with them (and consists of them,
  for a well-formed \<open>M\<close>); when it holds fewer, or does not exist, the matrix keeps the
  content the resize gave it.
\<close>

theorem downloadAttrib_not_found_iff:
  "((\<exists>msg. fst (downloadAttrib_Matrix gl sh name M) = Inl (runtime_error msg)) \<longleftrightarrow> \<not> hasAttrib sh name) \<and>
   (\<not> hasAttrib sh name \<longrightarrow> fst (downloadAttrib_Matrix gl sh name M) = Inl (notFound sh name)) \<and>
   snd (downloadAttrib_Matrix gl sh name M) = sh \<and>
   (\<forall>buf. map_of (mBufferObjects sh) name = Some buf \<and> dim buf \<noteq> 0 \<longrightarrow>
      (\<exists>M'. fst (downloadAttrib_Matrix gl sh name M) = Inr M' \<and>
         rows M' = unat (dim buf) \<and> cols M' = unat (size_buf buf) div unat (dim buf) \<and>
         scalar M' = scalar M \<and>
         data M' = glGetBufferSubData gl (id_buf buf) (size_M M' * unat (sizeof (scalar M)))
                     (data (resize M (rows M') (cols M'))) \<and>
         (\<forall>bytes. storage gl (id_buf buf) = Some bytes \<and>
              size_M M' * unat (sizeof (scalar M)) \<le> length bytes \<longrightarrow>
            take (size_M M' * unat (sizeof (scalar M))) (data M')
              = take (size_M M' * unat (sizeof (scalar M))) bytes \<and>
            (wf_Matrix M \<longrightarrow> data M' = take (size_M M' * unat (sizeof (scalar M))) bytes)) \<and>
         (storage gl (id_buf buf) = None \<or>
          (\<exists>bytes. storage gl (id_buf buf) = Some bytes \<and>
             length bytes < size_M M' * unat (sizeof (scalar M))) \<longrightarrow>
            data M' = data (resize M (rows M') (cols M')))))"
proof -
  have err: "(\<exists>msg. fst (downloadAttrib_Matrix gl sh name M) = Inl (runtime_error msg))
      \<longleftrightarrow> \<not> hasAttrib sh name"
    by (auto simp: downloadAttrib_Matrix_def downloadAttrib_def hasAttrib_def notFound_def Let_def
        split: option.splits prod.splits sum.splits)
  have msg: "\<not> hasAttrib sh name \<longrightarrow> fst (downloadAttrib_Matrix gl sh name M) = Inl (notFound sh name)"
    by (auto simp: downloadAttrib_Matrix_def hasAttrib_def split: option.splits)
  have same: "snd (downloadAttrib_Matrix gl sh name M) = sh"
    by (auto simp: downloadAttrib_Matrix_def downloadAttrib_def Let_def
        split: option.splits prod.splits sum.splits)
  have shape: "\<exists>M'. fst (downloadAttrib_Matrix gl sh name M) = Inr M' \<and>
         rows M' = unat (dim buf) \<and> cols M' = unat (size_buf buf) div unat (dim buf) \<and>
         scalar M' = scalar M \<and>
         data M' = glGetBufferSubData gl (id_buf buf) (size_M M' * unat (sizeof (scalar M)))
                     (data (resize M (rows M') (cols M'))) \<and>
         (\<forall>bytes. storage gl (id_buf buf) = Some bytes \<and>
              size_M M' * unat (sizeof (scalar M)) \<le> length bytes \<longrightarrow>
            take (size_M M' * unat (sizeof (scalar M))) (data M')
              = take (size_M M' * unat (sizeof (scalar M))) bytes \<and>
            (wf_Matrix M \<longrightarrow> data M' = take (size_M M' * unat (sizeof (scalar M))) bytes)) \<and>
         (storage gl (id_buf buf) = None \<or>
          (\<exists>bytes. storage gl (id_buf buf) = Some bytes \<and>
             length bytes < size_M M' * unat (sizeof (scalar M))) \<longrightarrow>
            data M' = data (resize M (rows M') (cols M')))"
    if reg: "map_of (mBufferObjects sh) name = Some buf" and nz: "dim buf \<noteq> 0" for buf
  proof -
    define r where "r = unat (dim buf)"
    define c where "c = unat (size_buf buf) div unat (dim buf)"
    define M1 where "M1 = resize M r c"
    define n where "n = r * c * unat (sizeof (scalar M))"
    define M' where "M' = M1\<lparr>data := glGetBufferSubData gl (id_buf buf) n (data M1)\<rparr>"
    have res: "fst (downloadAttrib_Matrix gl sh name M) = Inr M'"
      by (simp add: download_Matrix_registered [OF reg nz] M'_def M1_def n_def r_def c_def)
    have sh: "rows M' = r" "cols M' = c" "scalar M' = scalar M" "size_M M' = r * c"
      "rows M1 = r" "cols M1 = c"
      by (simp_all add: M'_def M1_def resize_def size_M_def)
    have nn: "size_M M' * unat (sizeof (scalar M)) = n"
      by (simp add: sh n_def)
    have dat: "data M' = glGetBufferSubData gl (id_buf buf) n (data M1)"
      by (simp add: M'_def)
    have len: "wf_Matrix M \<longrightarrow> length (data M1) = n"
      by (auto simp: M1_def resize_def wf_Matrix_def n_def)
    have filled: "take n (data M') = take n bytes \<and> (wf_Matrix M \<longrightarrow> data M' = take n bytes)"
      if "storage gl (id_buf buf) = Some bytes" and "n \<le> length bytes" for bytes
      using that len by (simp add: dat glGetBufferSubData_def)
    have unfilled: "data M' = data M1"
      if "storage gl (id_buf buf) = None \<or>
          (\<exists>bytes. storage gl (id_buf buf) = Some bytes \<and> length bytes < n)"
      using that by (auto simp: dat glGetBufferSubData_def)
    have e1: "size_M M' * unat (sizeof (scalar M)) = n"
      by (simp add: sh n_def)
    have e2: "resize M (rows M') (cols M') = M1"
      by (simp add: sh M1_def)
    have c2: "rows M' = unat (dim buf)" "cols M' = unat (size_buf buf) div unat (dim buf)"
      by (simp_all add: sh r_def c_def)
    have c5: "data M' = glGetBufferSubData gl (id_buf buf) (size_M M' * unat (sizeof (scalar M)))
                     (data (resize M (rows M') (cols M')))"
      by (simp only: e1 e2 dat)
    have c6: "\<forall>bytes. storage gl (id_buf buf) = Some bytes \<and>
              size_M M' * unat (sizeof (scalar M)) \<le> length bytes \<longrightarrow>
            take (size_M M' * unat (sizeof (scalar M))) (data M')
              = take (size_M M' * unat (sizeof (scalar M))) bytes \<and>
            (wf_Matrix M \<longrightarrow> data M' = take (size_M M' * unat (sizeof (scalar M))) bytes)"
      unfolding e1 using filled by blast
    have c7: "storage gl (id_buf buf) = None \<or>
          (\<exists>bytes. storage gl (id_buf buf) = Some bytes \<and>
             length bytes < size_M M' * unat (sizeof (scalar M))) \<longrightarrow>
            data M' = data (resize M (rows M') (cols M'))"
      unfolding e1 e2 using unfilled by blast
    show ?thesis
      using res c2 sh(3) c5 c6 c7 by blast
  qed
  show ?thesis
    using err msg same shape by blast
qed

text \<open>
  At concrete inputs: a shader with no Buffer, and one whose \<^verbatim>\<open>"indices"\<close> are a 3 x 1
  matrix, which is downloaded.
\<close>

theorem downloadAttrib_not_found_iff_witness:
  "\<not> hasAttrib (GLShader_new ''s'') ''indices'' \<and>
   fst (downloadAttrib_Matrix no_buffers (GLShader_new ''s'') ''indices'' default_indices)
     = Inl (runtime_error ''downloadAttrib(s, indices) : buffer not found!'') \<and>
   snd (downloadAttrib_Matrix no_buffers (GLShader_new ''s'') ''indices'' default_indices)
     = GLShader_new ''s'' \<and>
   map_of (mBufferObjects (snd (uploadIndices no_buffers (GLShader_new ''s'') triangle))) ''indices''
     = Some \<lparr>id_buf = 1, glType = GL_UNSIGNED_INT, dim = 3, compSize = 4, size_buf = 3, version = - 1\<rparr> \<and>
   storage (fst (uploadIndices no_buffers (GLShader_new ''s'') triangle)) 1 = Some (data triangle) \<and>
   wf_Matrix default_indices \<and>
   (\<exists>M'. fst (downloadAttrib_Matrix
                (fst (uploadIndices no_buffers (GLShader_new ''s'') triangle))
                (snd (uploadIndices no_buffers (GLShader_new ''s'') triangle))
                ''indices'' default_indices) = Inr M' \<and> rows M' = 3 \<and> cols M' = 1 \<and>
          data M' = data triangle)"
proof -
  have absent: "\<not> hasAttrib (GLShader_new ''s'') ''indices''"
    by (simp add: GLShader_new_def hasAttrib_def)
  have present:
    "map_of (mBufferObjects (snd (uploadIndices no_buffers (GLShader_new ''s'') triangle))) ''indices''
     = Some \<lparr>id_buf = 1, glType = GL_UNSIGNED_INT, dim = 3, compSize = 4, size_buf = 3, version = - 1\<rparr>"
    by (simp add: uploadIndices_def uploadAttrib_Matrix_def uploadAttrib_def GLShader_new_def
        no_buffers_def glGen_def triangle_def size_M_def)
  have st: "storage (fst (uploadIndices no_buffers (GLShader_new ''s'') triangle)) 1
      = Some (data triangle)"
    by (simp add: uploadIndices_def uploadAttrib_Matrix_def uploadAttrib_def GLShader_new_def
        no_buffers_def glGen_def glBufferData_def triangle_def size_M_def)
  have l: "length (data triangle) = 12" "scalar default_indices = uint32"
    by (simp_all add: triangle_def default_indices_def)
  have m: "notFound (GLShader_new ''s'') ''indices''
      = runtime_error ''downloadAttrib(s, indices) : buffer not found!''"
    by (simp add: notFound_def GLShader_new_def)
  show ?thesis
    using absent present st l m wf_fixtures(5)
      downloadAttrib_not_found_iff [where gl = no_buffers and sh = "GLShader_new ''s''"
        and name = "''indices''" and M = default_indices]
      downloadAttrib_not_found_iff
        [where gl = "fst (uploadIndices no_buffers (GLShader_new ''s'') triangle)"
        and sh = "snd (uploadIndices no_buffers (GLShader_new ''s'') triangle)"
        and name = "''indices''" and M = default_indices]
    by (auto simp: size_M_def)
qed

text \<open>
  With \<open>dim = 0\<close> the call does not return a matrix although the Buffer is registered:
  the indices uploaded from a default-constructed matrix. And a registered Buffer does not
  always fill the matrix: 48 bytes uploaded as 3 x 4 \<^verbatim>\<open>float\<close> and downloaded into a
  matrix of \<^verbatim>\<open>double\<close> are a read of 96 bytes, which returns the resized matrix
  unfilled.
\<close>

theorem download_registered_counterexample:
  "hasAttrib (snd (uploadIndices no_buffers (GLShader_new ''s'') default_indices)) ''indices'' \<and>
   fst (downloadAttrib_Matrix
         (fst (uploadIndices no_buffers (GLShader_new ''s'') default_indices))
         (snd (uploadIndices no_buffers (GLShader_new ''s'') default_indices))
         ''indices'' default_indices) = Inl division_by_zero \<and>
   hasAttrib (snd positioned) ''position'' \<and>
   storage (fst positioned) 1 = Some (data positions) \<and>
   fst (downloadAttrib_Matrix (fst positioned) (snd positioned) ''position'' default_double)
     = Inr \<lparr>scalar = double, rows = 3, cols = 4, data = replicate 96 0\<rparr>"
proof -
  have l: "length (data positions) = 48"
    by (simp add: positions_def)
  have p: "positioned =
     (\<lparr>storage = [1 \<mapsto> data positions], transfers = 1, issued = 1\<rparr>,
      (GLShader_new ''s'')\<lparr>mBufferObjects :=
         [(''position'', \<lparr>id_buf = 1, glType = GL_FLOAT, dim = 3, compSize = 4,
                           size_buf = 12, version = - 1\<rparr>)]\<rparr>)"
    using l by (simp add: positioned_def uploadAttrib_Matrix_def uploadAttrib_def GLShader_new_def
        no_buffers_def glGen_def glBufferData_def size_M_def positions_def)
  have a: "hasAttrib (snd (uploadIndices no_buffers (GLShader_new ''s'') default_indices)) ''indices'' \<and>
   fst (downloadAttrib_Matrix
         (fst (uploadIndices no_buffers (GLShader_new ''s'') default_indices))
         (snd (uploadIndices no_buffers (GLShader_new ''s'') default_indices))
         ''indices'' default_indices) = Inl division_by_zero"
    by (simp add: hasAttrib_def uploadIndices_def size_M_def default_indices_def
        uploadAttrib_Matrix_def uploadAttrib_def GLShader_new_def no_buffers_def glGen_def
        glBufferData_def downloadAttrib_Matrix_def)
  have b: "fst (downloadAttrib_Matrix (fst positioned) (snd positioned) ''position'' default_double)
     = Inr \<lparr>scalar = double, rows = 3, cols = 4, data = replicate 96 0\<rparr>"
    using l by (simp add: p downloadAttrib_Matrix_def downloadAttrib_def glGetBufferSubData_def
        resize_def default_double_def size_M_def GLShader_new_def)
  show ?thesis
    using a b by (simp add: p hasAttrib_def GLShader_new_def)
qed

subsection \<open>Freeing an attribute\<close>

text \<open>
  C7. After \<^verbatim>\<open>freeAttrib(name)\<close> no Buffer is registered under \<open>name\<close>:
  \<^verbatim>\<open>hasAttrib(name)\<close> is false and \<^verbatim>\<open>attribVersion(name)\<close> is \<open>-1\<close>; a Buffer that was
  registered has lost its GPU storage; and when none was registered, neither the context
  nor the shader changes.
\<close>

theorem freeAttrib_removes:
  "\<not> hasAttrib (snd (freeAttrib gl sh name)) name \<and>
   attribVersion (snd (freeAttrib gl sh name)) name = - 1 \<and>
   (\<forall>buf. map_of (mBufferObjects sh) name = Some buf \<longrightarrow>
      storage (fst (freeAttrib gl sh name)) (id_buf buf) = None \<and>
      mBufferObjects (snd (freeAttrib gl sh name)) = AList.delete name (mBufferObjects sh)) \<and>
   (\<not> hasAttrib sh name \<longrightarrow> freeAttrib gl sh name = (gl, sh))"
  by (auto simp: freeAttrib_def hasAttrib_def attribVersion_def glDeleteBuffers_def delete_conv'
      split: option.splits)

text \<open>
  At a concrete input: freeing the registered \<^verbatim>\<open>"position"\<close>, and freeing
  \<^verbatim>\<open>"normal"\<close>, which is not registered.
\<close>

theorem freeAttrib_removes_witness:
  "hasAttrib (snd uploaded) ''position'' \<and>
   \<not> hasAttrib (snd (freeAttrib (fst uploaded) (snd uploaded) ''position'')) ''position'' \<and>
   attribVersion (snd (freeAttrib (fst uploaded) (snd uploaded) ''position'')) ''position'' = - 1 \<and>
   storage (fst (freeAttrib (fst uploaded) (snd uploaded) ''position'')) 1 = None \<and>
   \<not> hasAttrib (snd uploaded) ''normal'' \<and>
   freeAttrib (fst uploaded) (snd uploaded) ''normal'' = uploaded"
proof -
  have present: "map_of (mBufferObjects (snd uploaded)) ''position''
      = Some \<lparr>id_buf = 1, glType = GL_UNSIGNED_BYTE, dim = 1, compSize = 1, size_buf = 2, version = 3\<rparr>"
    by (simp add: uploaded_eval)
  have absent: "\<not> hasAttrib (snd uploaded) ''normal''"
    by (simp add: uploaded_eval hasAttrib_def)
  have has: "hasAttrib (snd uploaded) ''position''"
    by (simp add: present hasAttrib_def)
  have "freeAttrib (fst uploaded) (snd uploaded) ''normal'' = (fst uploaded, snd uploaded)"
    using absent
      freeAttrib_removes [where gl = "fst uploaded" and sh = "snd uploaded" and name = "''normal''"]
    by blast
  then show ?thesis
    using present absent has
      freeAttrib_removes [where gl = "fst uploaded" and sh = "snd uploaded" and name = "''position''"]
    by simp
qed

subsection \<open>\<^verbatim>\<open>uploadIndices\<close>\<close>

text \<open>
  C8. For every index matrix \<open>M\<close>, \<^verbatim>\<open>uploadIndices(M)\<close> is \<^verbatim>\<open>uploadAttrib("indices", M)\<close>,
  with the default version \<open>-1\<close>: the same context and shader result. Whatever was
  registered before, the data is transferred and afterwards \<^verbatim>\<open>hasAttrib("indices")\<close> is
  true, the stored version is \<open>-1\<close>, and the entry under \<^verbatim>\<open>"indices"\<close> records the element
  count and component size of \<open>M\<close> and designates storage that holds the bytes of \<open>M\<close>
  (a new entry also records the rows and element type of \<open>M\<close>; an existing one keeps its
  handle). For a well-formed \<open>M\<close> with at least one row, fewer than \<open>2^32\<close> rows and
  coefficients, uploaded over no entry or over one with \<open>dim\<close> equal to its number of
  rows, downloading \<^verbatim>\<open>"indices"\<close> then returns \<open>M\<close>.
\<close>

theorem uploadIndices_is_uploadAttrib:
  "uploadIndices gl sh M = uploadAttrib_Matrix gl sh ''indices'' M (- 1) \<and>
   hasAttrib (snd (uploadIndices gl sh M)) ''indices'' \<and>
   attribVersion (snd (uploadIndices gl sh M)) ''indices'' = - 1 \<and>
   transfers (fst (uploadIndices gl sh M)) = Suc (transfers gl) \<and>
   (\<exists>buf. map_of (mBufferObjects (snd (uploadIndices gl sh M))) ''indices'' = Some buf \<and>
      size_buf buf = word_of_nat (size_M M) \<and> compSize buf = sizeof (scalar M) \<and>
      storage (fst (uploadIndices gl sh M)) (id_buf buf)
        = Some (take (unat (word_of_nat (size_M M) :: 32 word) * unat (sizeof (scalar M))) (data M)) \<and>
      (wf_Matrix M \<and> size_M M < 2 ^ 32 \<longrightarrow>
         storage (fst (uploadIndices gl sh M)) (id_buf buf) = Some (data M)) \<and>
      (\<not> hasAttrib sh ''indices'' \<longrightarrow>
         dim buf = word_of_nat (rows M) \<and> glType buf = type_traits_type (scalar M)) \<and>
      (\<forall>old. map_of (mBufferObjects sh) ''indices'' = Some old \<longrightarrow> id_buf buf = id_buf old)) \<and>
   (wf_Matrix M \<and> wf_Matrix M0 \<and> scalar M0 = scalar M \<and> 0 < rows M \<and> rows M < 2 ^ 32 \<and>
    size_M M < 2 ^ 32 \<and>
    (\<forall>old. map_of (mBufferObjects sh) ''indices'' = Some old \<longrightarrow> dim old = word_of_nat (rows M)) \<longrightarrow>
      downloadAttrib_Matrix (fst (uploadIndices gl sh M)) (snd (uploadIndices gl sh M)) ''indices'' M0
        = (Inr M, snd (uploadIndices gl sh M)))"
proof -
  have eq: "uploadIndices gl sh M = uploadAttrib_Matrix gl sh ''indices'' M (- 1)"
    by (simp add: uploadIndices_def)
  have t: "wf_Matrix M \<and> size_M M < 2 ^ 32 \<longrightarrow>
      take (unat (word_of_nat (size_M M) :: 32 word) * unat (sizeof (scalar M))) (data M) = data M"
    by (simp add: unat_of_nat wf_Matrix_def)
  have reg: "hasAttrib (snd (uploadIndices gl sh M)) ''indices'' \<and>
      attribVersion (snd (uploadIndices gl sh M)) ''indices'' = - 1 \<and>
      transfers (fst (uploadIndices gl sh M)) = Suc (transfers gl)"
    by (auto simp: eq uploadAttrib_Matrix_def uploadAttrib_def hasAttrib_def attribVersion_def
        update_conv' Let_def glBufferData_def glGen_def split: option.splits prod.splits)
  have entry: "\<exists>buf. map_of (mBufferObjects (snd (uploadIndices gl sh M))) ''indices'' = Some buf \<and>
      size_buf buf = word_of_nat (size_M M) \<and> compSize buf = sizeof (scalar M) \<and>
      storage (fst (uploadIndices gl sh M)) (id_buf buf)
        = Some (take (unat (word_of_nat (size_M M) :: 32 word) * unat (sizeof (scalar M))) (data M)) \<and>
      (wf_Matrix M \<and> size_M M < 2 ^ 32 \<longrightarrow>
         storage (fst (uploadIndices gl sh M)) (id_buf buf) = Some (data M)) \<and>
      (\<not> hasAttrib sh ''indices'' \<longrightarrow>
         dim buf = word_of_nat (rows M) \<and> glType buf = type_traits_type (scalar M)) \<and>
      (\<forall>old. map_of (mBufferObjects sh) ''indices'' = Some old \<longrightarrow> id_buf buf = id_buf old)"
  proof (cases "map_of (mBufferObjects sh) ''indices''")
    case None
    then show ?thesis
      using t by (auto simp: eq uploadAttrib_Matrix_def uploadAttrib_def hasAttrib_def
          update_conv' glBufferData_def Let_def split: prod.splits)
  next
    case (Some old)
    then show ?thesis
      using t by (auto simp: eq uploadAttrib_Matrix_def uploadAttrib_def hasAttrib_def
          update_conv' glBufferData_def Let_def)
  qed
  have trip: "downloadAttrib_Matrix (fst (uploadIndices gl sh M)) (snd (uploadIndices gl sh M))
        ''indices'' M0 = (Inr M, snd (uploadIndices gl sh M))"
    if wf: "wf_Matrix M" "wf_Matrix M0" and ty: "scalar M0 = scalar M"
      and r: "0 < rows M" "rows M < 2 ^ 32" and sz: "size_M M < 2 ^ 32"
      and old: "\<forall>old. map_of (mBufferObjects sh) ''indices'' = Some old \<longrightarrow> dim old = word_of_nat (rows M)"
  proof -
    obtain b where "map_of (mBufferObjects (snd (uploadIndices gl sh M))) ''indices'' = Some b"
      and "dim b = word_of_nat (rows M)" and "size_buf b = word_of_nat (size_M M)"
      and "storage (fst (uploadIndices gl sh M)) (id_buf b) = Some (data M)"
      using upload_Matrix_post [OF wf(1) sz old, of gl] unfolding eq by blast
    then show ?thesis
      using wf ty r sz by (intro download_Matrix_stored)
  qed
  show ?thesis
    using eq reg entry trip by blast
qed

text \<open>
  At a concrete input: three indices uploaded into a new shader, and downloaded.
\<close>

theorem uploadIndices_is_uploadAttrib_witness:
  "uploadIndices no_buffers (GLShader_new ''s'') triangle
     = uploadAttrib_Matrix no_buffers (GLShader_new ''s'') ''indices'' triangle (- 1) \<and>
   \<not> hasAttrib (GLShader_new ''s'') ''indices'' \<and>
   hasAttrib (snd (uploadIndices no_buffers (GLShader_new ''s'') triangle)) ''indices'' \<and>
   transfers (fst (uploadIndices no_buffers (GLShader_new ''s'') triangle)) = 1 \<and>
   wf_Matrix triangle \<and> wf_Matrix default_indices \<and> scalar default_indices = scalar triangle \<and>
   0 < rows triangle \<and> rows triangle < 2 ^ 32 \<and> size_M triangle < 2 ^ 32 \<and>
   fst (downloadAttrib_Matrix (fst (uploadIndices no_buffers (GLShader_new ''s'') triangle))
          (snd (uploadIndices no_buffers (GLShader_new ''s'') triangle)) ''indices'' default_indices)
     = Inr triangle"
proof -
  have a: "\<not> hasAttrib (GLShader_new ''s'') ''indices''"
    by (simp add: GLShader_new_def hasAttrib_def)
  have t: "transfers no_buffers = 0"
    by (simp add: no_buffers_def)
  have h: "scalar default_indices = scalar triangle" "0 < rows triangle"
    "rows triangle < 2 ^ 32" "size_M triangle < 2 ^ 32"
    by (simp_all add: default_indices_def triangle_def size_M_def)
  have n: "\<forall>old. map_of (mBufferObjects (GLShader_new ''s'')) ''indices'' = Some old \<longrightarrow>
      dim old = word_of_nat (rows triangle)"
    by (simp add: GLShader_new_def)
  show ?thesis
    using a t h n wf_fixtures(4,5)
      uploadIndices_is_uploadAttrib [where gl = no_buffers and sh = "GLShader_new ''s''"
        and M = triangle and ?M0.0 = default_indices]
    by auto
qed

subsection \<open>The framebuffer\<close>

text \<open>
  C9. \<^verbatim>\<open>ready()\<close> is true if and only if the framebuffer handle is not zero; it is
  false on a newly constructed object and after \<^verbatim>\<open>free()\<close>, true after \<^verbatim>\<open>init\<close> and
  after any calls of \<^verbatim>\<open>bind\<close>, \<^verbatim>\<open>release\<close> and \<^verbatim>\<open>blit\<close> that follow it, and false
  again after the next \<^verbatim>\<open>free()\<close>.
\<close>

theorem ready_iff_handle:
  "(ready fb \<longleftrightarrow> mFramebuffer fb \<noteq> 0) \<and>
   \<not> ready (GLFramebuffer_new s0) \<and>
   \<not> ready (free_fb fb) \<and>
   ready (snd (init_fb gl fb sz n)) \<and>
   ready (fold fb_use calls (snd (init_fb gl fb sz n))) \<and>
   \<not> ready (free_fb (fold fb_use calls (snd (init_fb gl fb sz n))))"
proof -
  have u: "fb_use c x = x" for c x
    by (cases c) simp_all
  have f: "fold fb_use cs x = x" for cs x
    by (induction cs) (simp_all add: u)
  have "ready (snd (init_fb gl fb sz n))"
    using glGen_nonzero
    by (simp add: init_fb_def ready_def split: prod.splits) (metis fst_conv)
  then show ?thesis
    by (simp add: f) (simp add: ready_def GLFramebuffer_new_def free_fb_def)
qed

text \<open>
  At a concrete input: a new framebuffer, initialised at 640 x 480 with 4 samples, used
  and freed.
\<close>

theorem ready_iff_handle_witness:
  "\<not> ready (GLFramebuffer_new (0, 0)) \<and>
   mFramebuffer (snd (init_fb no_buffers (GLFramebuffer_new (0, 0)) (640, 480) 4)) = 3 \<and>
   ready (snd (init_fb no_buffers (GLFramebuffer_new (0, 0)) (640, 480) 4)) \<and>
   ready (fold fb_use [Bind, Blit, Release]
            (snd (init_fb no_buffers (GLFramebuffer_new (0, 0)) (640, 480) 4))) \<and>
   \<not> ready (free_fb (fold fb_use [Bind, Blit, Release]
            (snd (init_fb no_buffers (GLFramebuffer_new (0, 0)) (640, 480) 4))))"
proof -
  have "mFramebuffer (snd (init_fb no_buffers (GLFramebuffer_new (0, 0)) (640, 480) 4)) = 3"
    by (simp add: init_fb_def glGen_def no_buffers_def)
  then show ?thesis
    using ready_iff_handle [where fb = "GLFramebuffer_new (0, 0)" and ?s0.0 = "(0, 0)"
        and gl = no_buffers and sz = "(640, 480)" and n = 4 and calls = "[Bind, Blit, Release]"]
    by blast
qed

subsection \<open>\<^verbatim>\<open>resetAttribVersion\<close>\<close>

text \<open>
  C10. When a Buffer is registered under \<open>name\<close>, \<^verbatim>\<open>resetAttribVersion(name)\<close> sets its
  version to \<open>-1\<close> and changes no other field of it, so \<^verbatim>\<open>attribVersion(name)\<close> is \<open>-1\<close>
  afterwards and the next \<^verbatim>\<open>uploadAttrib\<close> for \<open>name\<close> transfers, whatever the version;
  when none is registered the shader is unchanged. No other entry and no other member of
  the shader changes in either case.
\<close>

theorem resetAttribVersion_effect:
  "(\<forall>buf. map_of (mBufferObjects sh) name = Some buf \<longrightarrow>
       map_of (mBufferObjects (resetAttribVersion sh name)) name = Some (buf\<lparr>version := - 1\<rparr>) \<and>
       attribVersion (resetAttribVersion sh name) name = - 1 \<and>
       transfers (fst (uploadAttrib gl (resetAttribVersion sh name) name sz d cs ty i bytes v))
         = Suc (transfers gl) \<and>
       storage (fst (uploadAttrib gl (resetAttribVersion sh name) name sz d cs ty i bytes v)) (id_buf buf)
         = Some (take (unat sz * unat cs) bytes)) \<and>
   (\<not> hasAttrib sh name \<longrightarrow> resetAttribVersion sh name = sh) \<and>
   (\<forall>other. other \<noteq> name \<longrightarrow>
       map_of (mBufferObjects (resetAttribVersion sh name)) other = map_of (mBufferObjects sh) other) \<and>
   resetAttribVersion sh name = sh\<lparr>mBufferObjects := mBufferObjects (resetAttribVersion sh name)\<rparr>"
  by (auto simp: resetAttribVersion_def attribVersion_def hasAttrib_def uploadAttrib_def
      glBufferData_def update_conv' split: option.splits)

text \<open>
  At a concrete input: resetting the registered \<^verbatim>\<open>"position"\<close>, stored with version 3,
  and resetting \<^verbatim>\<open>"normal"\<close>, which is not registered.
\<close>

theorem resetAttribVersion_effect_witness:
  "attribVersion (snd uploaded) ''position'' = 3 \<and>
   map_of (mBufferObjects (resetAttribVersion (snd uploaded) ''position'')) ''position''
     = Some \<lparr>id_buf = 1, glType = GL_UNSIGNED_BYTE, dim = 1, compSize = 1, size_buf = 2, version = - 1\<rparr> \<and>
   transfers (fst (uploadAttrib (fst uploaded) (resetAttribVersion (snd uploaded) ''position'')
                     ''position'' 2 1 1 GL_UNSIGNED_BYTE True [8, 8] 3)) = 2 \<and>
   \<not> hasAttrib (snd uploaded) ''normal'' \<and>
   resetAttribVersion (snd uploaded) ''normal'' = snd uploaded"
proof -
  have present: "map_of (mBufferObjects (snd uploaded)) ''position''
      = Some \<lparr>id_buf = 1, glType = GL_UNSIGNED_BYTE, dim = 1, compSize = 1, size_buf = 2, version = 3\<rparr>"
    by (simp add: uploaded_eval)
  have absent: "\<not> hasAttrib (snd uploaded) ''normal''"
    by (simp add: uploaded_eval hasAttrib_def)
  have t: "transfers (fst uploaded) = 1"
    by (simp add: uploaded_eval)
  show ?thesis
    using present absent t
      resetAttribVersion_effect [where sh = "snd uploaded" and name = "''position''"
        and gl = "fst uploaded" and sz = 2 and d = 1 and cs = 1 and ty = GL_UNSIGNED_BYTE
        and i = True and bytes = "[8, 8]" and v = 3]
      resetAttribVersion_effect [where sh = "snd uploaded" and name = "''normal''"]
    by (simp add: attribVersion_def)
qed

end
